theory Spec2Isabelle
  imports Main
begin

chapter \<open>The model\<close>

section \<open>Shared data: identifiers, Python datetimes, error values\<close>

text \<open>
  Every model keys its rows by a UUID (\<^verbatim>\<open>Column(UUID(as_uuid=True), ...)\<close>). The code only
  ever compares identifiers for equality, so an identifier is a natural number here.
\<close>

type_synonym uuid = nat

text \<open>
  A Python \<^verbatim>\<open>datetime\<close> is either naive (no \<^verbatim>\<open>tzinfo\<close>) or aware. The number is the
  reading in microseconds: the wall-clock reading of a naive value, the UTC instant of an
  aware one. \<^verbatim>\<open>datetime.utcnow()\<close> returns a naive value. The columns are declared
  \<^verbatim>\<open>DateTime(timezone=True)\<close>, so an attribute holds a naive value when the application
  assigned one and an aware value when the row was loaded from PostgreSQL.
\<close>

datatype datetime = Naive int | Aware int

datatype py_error = TypeError

text \<open>
  The ordering comparisons of two datetimes: Python raises \<^verbatim>\<open>TypeError\<close> ("can't compare
  offset-naive and offset-aware datetimes") when exactly one operand is aware.
\<close>

fun dt_gt :: "datetime \<Rightarrow> datetime \<Rightarrow> py_error + bool" where
  "dt_gt (Naive a) (Naive b) = Inr (a > b)"
| "dt_gt (Aware a) (Aware b) = Inr (a > b)"
| "dt_gt _ _ = Inl TypeError"

fun dt_le :: "datetime \<Rightarrow> datetime \<Rightarrow> py_error + bool" where
  "dt_le (Naive a) (Naive b) = Inr (a \<le> b)"
| "dt_le (Aware a) (Aware b) = Inr (a \<le> b)"
| "dt_le _ _ = Inl TypeError"

text \<open>\<^verbatim>\<open>datetime.utcnow()\<close> at the instant \<open>t\<close>.\<close>

definition utcnow :: "int \<Rightarrow> datetime" where
  "utcnow t = Naive t"

text \<open>
  The instant a stored time denotes: the application writes naive values that are UTC
  readings (it takes them from \<^verbatim>\<open>datetime.utcnow()\<close>), and an aware value carries its UTC
  instant.
\<close>

definition instant :: "datetime \<Rightarrow> int" where
  "instant d = (case d of Naive t \<Rightarrow> t | Aware t \<Rightarrow> t)"

text \<open>
  What the database answers when it refuses a statement: a value outside the width of its
  column (\<^verbatim>\<open>Integer\<close> is a signed 32-bit column) is a data error, a broken key or unique
  constraint an integrity error. A refused statement changes nothing.
\<close>

datatype db_error = IntegrityError | DataError

definition fits_Integer :: "int \<Rightarrow> bool" where
  "fits_Integer v = (- 2147483648 \<le> v \<and> v \<le> 2147483647)"

section \<open>app/models/role.py: Permission\<close>

text \<open>
  The columns of \<^verbatim>\<open>Permission\<close> that \<^verbatim>\<open>full_name\<close> and the table constraints read.
  \<^verbatim>\<open>resource\<close> and \<^verbatim>\<open>action\<close> are \<^verbatim>\<open>nullable=False\<close>; \<^verbatim>\<open>scope\<close> is
  \<^verbatim>\<open>nullable=True\<close>, hence an option.
\<close>

record Permission =
  perm_id :: uuid
  perm_name :: string
  resource :: string
  action :: string
  scope :: "string option"
  perm_is_active :: bool

text \<open>Python's \<^verbatim>\<open>sep.join(parts)\<close>.\<close>

fun str_join :: "string \<Rightarrow> string list \<Rightarrow> string" where
  "str_join sep [] = []"
| "str_join sep [x] = x"
| "str_join sep (x # y # ys) = x @ sep @ str_join sep (y # ys)"

text \<open>
  Truthiness of an optional string, as \<^verbatim>\<open>if self.scope:\<close> tests it: \<^verbatim>\<open>None\<close> and the
  empty string are both false.
\<close>

fun truthy :: "string option \<Rightarrow> bool" where
  "truthy None = False"
| "truthy (Some s) = (s \<noteq> [])"

text \<open>
  \<^verbatim>\<open>parts = [self.resource, self.action]; if self.scope: parts.append(self.scope)\<close>
\<close>

definition full_name_parts :: "Permission \<Rightarrow> string list" where
  "full_name_parts p =
     (let parts = [resource p, action p]
      in if truthy (scope p) then parts @ [the (scope p)] else parts)"

text \<open>\<^verbatim>\<open>return ":".join(parts)\<close>\<close>

definition full_name :: "Permission \<Rightarrow> string" where
  "full_name p = str_join '':'' (full_name_parts p)"

section \<open>app/models/session.py: UserSession\<close>

datatype SessionStatus = Session_ACTIVE | Session_EXPIRED | Session_TERMINATED | Session_REVOKED

text \<open>
  The columns of \<^verbatim>\<open>UserSession\<close> read by its properties and the security flags.
  \<^verbatim>\<open>expires_at\<close> is \<^verbatim>\<open>nullable=False\<close>, \<^verbatim>\<open>terminated_at\<close> is nullable.
\<close>

record UserSession =
  session_id :: uuid
  session_user_id :: uuid
  session_status :: SessionStatus
  session_expires_at :: datetime
  terminated_at :: "datetime option"
  is_suspicious :: bool
  session_risk_score :: int
  mfa_verified :: bool

text \<open>
  \<^verbatim>\<open>self.status == ACTIVE and self.expires_at > now and self.terminated_at is None\<close>:
  \<^verbatim>\<open>and\<close> evaluates from the left and stops at the first false operand, so the comparison
  (and its possible \<^verbatim>\<open>TypeError\<close>) happens only for an ACTIVE session.
\<close>

definition UserSession_is_active :: "UserSession \<Rightarrow> int \<Rightarrow> py_error + bool" where
  "UserSession_is_active s t =
     (let now = utcnow t
      in if session_status s = Session_ACTIVE
         then (case dt_gt (session_expires_at s) now of
                 Inl e \<Rightarrow> Inl e
               | Inr b \<Rightarrow> if b then Inr (terminated_at s = None) else Inr False)
         else Inr False)"

text \<open>
  \<^verbatim>\<open>self.expires_at <= now or self.status == SessionStatus.EXPIRED\<close>: the comparison is
  the first operand of \<^verbatim>\<open>or\<close>, so it is always evaluated.
\<close>

definition UserSession_is_expired :: "UserSession \<Rightarrow> int \<Rightarrow> py_error + bool" where
  "UserSession_is_expired s t =
     (let now = utcnow t
      in case dt_le (session_expires_at s) now of
           Inl e \<Rightarrow> Inl e
         | Inr b \<Rightarrow> if b then Inr True else Inr (session_status s = Session_EXPIRED))"

section \<open>app/models/mfa.py: MFAToken\<close>

datatype MFATokenStatus = Token_PENDING | Token_USED | Token_EXPIRED | Token_REVOKED

record MFAToken =
  token_id :: uuid
  token_status :: MFATokenStatus
  token_expires_at :: datetime
  attempts :: int
  max_attempts :: int

text \<open>
  \<^verbatim>\<open>self.status == PENDING and self.expires_at > now and self.attempts < self.max_attempts\<close>
\<close>

definition is_valid :: "MFAToken \<Rightarrow> int \<Rightarrow> py_error + bool" where
  "is_valid tok t =
     (let now = utcnow t
      in if token_status tok = Token_PENDING
         then (case dt_gt (token_expires_at tok) now of
                 Inl e \<Rightarrow> Inl e
               | Inr b \<Rightarrow> if b then Inr (attempts tok < max_attempts tok) else Inr False)
         else Inr False)"

section \<open>Row creation: column defaults and declared column types\<close>

text \<open>
  The models inherit the declarative constructor: a keyword argument is kept as it is
  given, without validation, and a column that was given no value receives its
  \<^verbatim>\<open>default=\<close> when the row is written. An argument that may be omitted is an option here,
  \<open>None\<close> standing for "not given". Creating a row is constructing it and writing it: the
  INSERT refuses a value that does not fit an \<^verbatim>\<open>Integer\<close> column and applies no other
  check to the scores.
\<close>

definition column_default :: "'a \<Rightarrow> 'a option \<Rightarrow> 'a" where
  "column_default d given = (case given of None \<Rightarrow> d | Some v \<Rightarrow> v)"

text \<open>
  \<^verbatim>\<open>UserSession\<close>: \<^verbatim>\<open>status\<close> defaults to ACTIVE, \<^verbatim>\<open>is_suspicious\<close> to \<^verbatim>\<open>False\<close>,
  \<^verbatim>\<open>risk_score = Column(Integer, default=0, nullable=False)  # 0-100\<close>,
  \<^verbatim>\<open>mfa_verified\<close> to \<^verbatim>\<open>False\<close>.
\<close>

definition new_UserSession ::
  "uuid \<Rightarrow> uuid \<Rightarrow> datetime \<Rightarrow> SessionStatus option \<Rightarrow> datetime option \<Rightarrow>
   bool option \<Rightarrow> int option \<Rightarrow> bool option \<Rightarrow> db_error + UserSession" where
  "new_UserSession i u exp st tm susp risk mfa =
     (if fits_Integer (column_default 0 risk)
      then Inr \<lparr>session_id = i, session_user_id = u,
                session_status = column_default Session_ACTIVE st,
                session_expires_at = exp, terminated_at = tm,
                is_suspicious = column_default False susp,
                session_risk_score = column_default 0 risk,
                mfa_verified = column_default False mfa\<rparr>
      else Inl DataError)"

text \<open>
  \<^verbatim>\<open>SessionActivity\<close>: \<^verbatim>\<open>risk_score = Column(Integer, default=0, nullable=False)\<close> and
  \<^verbatim>\<open>anomaly_detected\<close> defaults to \<^verbatim>\<open>False\<close>.
\<close>

record SessionActivity =
  activity_id :: uuid
  activity_session_id :: uuid
  activity_type :: string
  activity_risk_score :: int
  anomaly_detected :: bool

definition new_SessionActivity ::
  "uuid \<Rightarrow> uuid \<Rightarrow> string \<Rightarrow> int option \<Rightarrow> bool option \<Rightarrow> db_error + SessionActivity" where
  "new_SessionActivity i s ty risk anomaly =
     (if fits_Integer (column_default 0 risk)
      then Inr \<lparr>activity_id = i, activity_session_id = s, activity_type = ty,
                activity_risk_score = column_default 0 risk,
                anomaly_detected = column_default False anomaly\<rparr>
      else Inl DataError)"

text \<open>
  \<^verbatim>\<open>DeviceInfo\<close>: \<^verbatim>\<open>is_trusted\<close> defaults to \<^verbatim>\<open>False\<close>,
  \<^verbatim>\<open>trust_score = Column(Integer, default=0, nullable=False)  # 0-100\<close>,
  \<^verbatim>\<open>login_count\<close> to 0, \<^verbatim>\<open>is_blocked\<close> to \<^verbatim>\<open>False\<close>.
\<close>

record DeviceInfo =
  device_id :: uuid
  device_user_id :: uuid
  device_fingerprint :: string
  is_trusted :: bool
  trust_score :: int
  login_count :: int
  is_blocked :: bool

definition new_DeviceInfo ::
  "uuid \<Rightarrow> uuid \<Rightarrow> string \<Rightarrow> bool option \<Rightarrow> int option \<Rightarrow> int option \<Rightarrow>
   bool option \<Rightarrow> db_error + DeviceInfo" where
  "new_DeviceInfo i u fp trusted score logins blocked =
     (if fits_Integer (column_default 0 score) \<and> fits_Integer (column_default 0 logins)
      then Inr \<lparr>device_id = i, device_user_id = u, device_fingerprint = fp,
                is_trusted = column_default False trusted,
                trust_score = column_default 0 score,
                login_count = column_default 0 logins,
                is_blocked = column_default False blocked\<rparr>
      else Inl DataError)"

text \<open>The range the comments on both score columns document.\<close>

definition in_score_range :: "int \<Rightarrow> bool" where
  "in_score_range v = (0 \<le> v \<and> v \<le> 100)"

text \<open>
  \<^verbatim>\<open>Permission\<close>: \<^verbatim>\<open>is_active\<close> defaults to \<^verbatim>\<open>True\<close>; the other columns modelled have no
  default.
\<close>

definition new_Permission ::
  "uuid \<Rightarrow> string \<Rightarrow> string \<Rightarrow> string \<Rightarrow> string option \<Rightarrow> bool option \<Rightarrow> Permission" where
  "new_Permission i n r a sc active =
     \<lparr>perm_id = i, perm_name = n, resource = r, action = a, scope = sc,
      perm_is_active = column_default True active\<rparr>"

text \<open>
  The declared column types of \<^verbatim>\<open>Permission\<close>: \<^verbatim>\<open>name = String(100)\<close>,
  \<^verbatim>\<open>resource = String(100)\<close>, \<^verbatim>\<open>action = String(50)\<close> and
  \<^verbatim>\<open>scope = Column(String(100), nullable=True)\<close>. No column carries a check constraint or
  an enumeration of admissible scopes.
\<close>

definition Permission_columns_ok :: "Permission \<Rightarrow> bool" where
  "Permission_columns_ok p =
     (length (perm_name p) \<le> 100 \<and> length (resource p) \<le> 100 \<and> length (action p) \<le> 50 \<and>
      (case scope p of None \<Rightarrow> True | Some s \<Rightarrow> length s \<le> 100))"

text \<open>The four scope words the comment on the column gives as examples.\<close>

definition example_scopes :: "string list" where
  "example_scopes = [''own'', ''department'', ''organization'', ''all'']"

section \<open>Step-up on risk\<close>

text \<open>
  Modelled from the spec: the decision coordinator, which is not part of the models, turns
  an otherwise allowed decision into a step-up when the session's risk score reaches the
  configured threshold ("if \<^verbatim>\<open>risk_score >= threshold\<close>, outcome is \<^verbatim>\<open>RequireStepUp\<close>").
  The threshold is a parameter.
\<close>

definition forces_step_up :: "int \<Rightarrow> UserSession \<Rightarrow> bool" where
  "forces_step_up threshold s = (session_risk_score s \<ge> threshold)"

section \<open>app/models/role.py: RolePermission and its table constraints\<close>

text \<open>
  The JSON columns (\<^verbatim>\<open>conditions\<close>, \<^verbatim>\<open>approval_workflow\<close>, ...) hold JSON values.
\<close>

datatype json = JNull | JBool bool | JNum int | JStr string | JList "json list"
  | JDict "(string \<times> json) list"

text \<open>
  \<^verbatim>\<open>role_id\<close> and \<^verbatim>\<open>permission_id\<close> are \<^verbatim>\<open>nullable=False\<close>; \<^verbatim>\<open>expires_at\<close> is nullable;
  \<^verbatim>\<open>is_active\<close> defaults to \<^verbatim>\<open>True\<close> and \<^verbatim>\<open>conditions\<close> to the empty dictionary.
\<close>

record RolePermission =
  rp_id :: uuid
  rp_role_id :: uuid
  rp_permission_id :: uuid
  rp_expires_at :: "datetime option"
  rp_is_active :: bool
  rp_conditions :: json

definition new_RolePermission ::
  "uuid \<Rightarrow> uuid \<Rightarrow> uuid \<Rightarrow> datetime option \<Rightarrow> bool option \<Rightarrow> json option \<Rightarrow> RolePermission" where
  "new_RolePermission i role perm exp active conds =
     \<lparr>rp_id = i, rp_role_id = role, rp_permission_id = perm, rp_expires_at = exp,
      rp_is_active = column_default True active,
      rp_conditions = column_default (JDict []) conds\<rparr>"

text \<open>
  The table \<^verbatim>\<open>role_permissions\<close> is the list of its rows. The database enforces what the
  model declares: the primary key \<^verbatim>\<open>id\<close> and
  \<^verbatim>\<open>UniqueConstraint("role_id", "permission_id", name="uq_role_permission")\<close>. A statement
  that would break either is refused with an integrity error and changes nothing.
\<close>

definition violates_pk :: "RolePermission list \<Rightarrow> RolePermission \<Rightarrow> bool" where
  "violates_pk rows r = (\<exists>x \<in> set rows. rp_id x = rp_id r)"

definition violates_uq_role_permission :: "RolePermission list \<Rightarrow> RolePermission \<Rightarrow> bool" where
  "violates_uq_role_permission rows r =
     (\<exists>x \<in> set rows. rp_role_id x = rp_role_id r \<and> rp_permission_id x = rp_permission_id r)"

text \<open>INSERT of one row.\<close>

definition insert_role_permission ::
  "RolePermission list \<Rightarrow> RolePermission \<Rightarrow> db_error + RolePermission list" where
  "insert_role_permission rows r =
     (if violates_pk rows r \<or> violates_uq_role_permission rows r then Inl IntegrityError
      else Inr (rows @ [r]))"

text \<open>
  UPDATE of the row with primary key \<open>i\<close> to the column values of \<open>r\<close>. When no row has
  that key the statement succeeds and changes nothing; otherwise the constraint is checked
  against the other rows.
\<close>

definition update_role_permission ::
  "RolePermission list \<Rightarrow> uuid \<Rightarrow> RolePermission \<Rightarrow> db_error + RolePermission list" where
  "update_role_permission rows i r =
     (let r' = r\<lparr>rp_id := i\<rparr>; others = filter (\<lambda>x. rp_id x \<noteq> i) rows
      in if others = rows then Inr rows
         else if violates_uq_role_permission others r' then Inl IntegrityError
         else Inr (map (\<lambda>x. if rp_id x = i then r' else x) rows))"

text \<open>
  DELETE of one row, and the deletes that cascade from a role or a permission
  (\<^verbatim>\<open>cascade="all, delete-orphan"\<close> on both relationships).
\<close>

definition delete_role_permission :: "RolePermission list \<Rightarrow> uuid \<Rightarrow> RolePermission list" where
  "delete_role_permission rows i = filter (\<lambda>x. rp_id x \<noteq> i) rows"

definition delete_role_cascade :: "RolePermission list \<Rightarrow> uuid \<Rightarrow> RolePermission list" where
  "delete_role_cascade rows role = filter (\<lambda>x. rp_role_id x \<noteq> role) rows"

definition delete_permission_cascade :: "RolePermission list \<Rightarrow> uuid \<Rightarrow> RolePermission list" where
  "delete_permission_cascade rows perm = filter (\<lambda>x. rp_permission_id x \<noteq> perm) rows"

text \<open>The states of the table that these statements reach from the empty table.\<close>

inductive reachable_role_permissions :: "RolePermission list \<Rightarrow> bool" where
  reach_empty: "reachable_role_permissions []"
| reach_insert: "reachable_role_permissions rows \<Longrightarrow> insert_role_permission rows r = Inr rows'
     \<Longrightarrow> reachable_role_permissions rows'"
| reach_update: "reachable_role_permissions rows \<Longrightarrow> update_role_permission rows i r = Inr rows'
     \<Longrightarrow> reachable_role_permissions rows'"
| reach_delete: "reachable_role_permissions rows
     \<Longrightarrow> reachable_role_permissions (delete_role_permission rows i)"
| reach_delete_role: "reachable_role_permissions rows
     \<Longrightarrow> reachable_role_permissions (delete_role_cascade rows role)"
| reach_delete_permission: "reachable_role_permissions rows
     \<Longrightarrow> reachable_role_permissions (delete_permission_cascade rows perm)"

definition grant_key :: "RolePermission \<Rightarrow> uuid \<times> uuid" where
  "grant_key x = (rp_role_id x, rp_permission_id x)"

definition keys_unique :: "RolePermission list \<Rightarrow> bool" where
  "keys_unique rows = (distinct (map rp_id rows) \<and> distinct (map grant_key rows))"

section \<open>app/models/role.py and app/models/user.py: hierarchy edges and role assignments\<close>

text \<open>
  \<^verbatim>\<open>RoleHierarchy\<close>: one row per edge between two roles; \<^verbatim>\<open>depth\<close> defaults to 1,
  \<^verbatim>\<open>inherit_permissions\<close> to \<^verbatim>\<open>True\<close> and \<^verbatim>\<open>inherit_conditions\<close> to \<^verbatim>\<open>False\<close>.
\<close>

record RoleHierarchy =
  rh_id :: uuid
  parent_role_id :: uuid
  child_role_id :: uuid
  depth :: int
  inherit_permissions :: bool
  inherit_conditions :: bool

text \<open>
  \<^verbatim>\<open>UserRole\<close>: the assignment of a role to a user; \<^verbatim>\<open>expires_at\<close> is nullable and
  \<^verbatim>\<open>is_active\<close> defaults to \<^verbatim>\<open>True\<close>.
\<close>

record UserRole =
  ur_id :: uuid
  ur_user_id :: uuid
  ur_role_id :: uuid
  ur_expires_at :: "datetime option"
  ur_is_active :: bool

text \<open>
  The snapshot of the four tables that one authorization query reads.
\<close>

record snapshot =
  permissions :: "Permission list"
  role_permissions :: "RolePermission list"
  user_roles :: "UserRole list"
  role_hierarchy :: "RoleHierarchy list"

section \<open>Role graph resolver\<close>

text \<open>
  Modelled from the spec: an assignment or grant counts when its "expiry is null or in the
  future" at the evaluation time; the resolver and the aggregator that apply this test are
  not among the model files.
\<close>

definition not_expired :: "int \<Rightarrow> datetime option \<Rightarrow> bool" where
  "not_expired now expiry = (case expiry of None \<Rightarrow> True | Some d \<Rightarrow> now < instant d)"










section \<open>Permission aggregator\<close>

text \<open>
  Modelled from the spec: the aggregator, which is not among the model files, collects
  "active RoleGrants whose expiry is null or in the future".
\<close>

definition grant_live :: "int \<Rightarrow> RolePermission \<Rightarrow> bool" where
  "grant_live now g = (rp_is_active g \<and> not_expired now (rp_expires_at g))"

text \<open>
  Modelled from the spec: "if a grant carries conditions, evaluate them against
  \<^verbatim>\<open>context\<close>"; a grant with the empty dictionary carries none. The condition-evaluation
  primitive of the policy evaluator is not among the model files: it is the parameter
  \<open>matches\<close>.
\<close>

definition grant_applies :: "(json \<Rightarrow> 'ctx \<Rightarrow> bool) \<Rightarrow> 'ctx \<Rightarrow> RolePermission \<Rightarrow> bool" where
  "grant_applies matches ctx g = (rp_conditions g = JDict [] \<or> matches (rp_conditions g) ctx)"

text \<open>
  Modelled from the spec: the permission a grant row points to, looked up by
  \<^verbatim>\<open>permission_id\<close> in the snapshot's permission table.
\<close>

definition granted_permissions :: "Permission list \<Rightarrow> RolePermission \<Rightarrow> Permission list" where
  "granted_permissions perms g = filter (\<lambda>p. perm_id p = rp_permission_id g) perms"

text \<open>
  Modelled from the spec: the output is a "deduplicated permission set keyed by canonical
  name"; the first permission with a given \<^verbatim>\<open>full_name\<close> is kept.
\<close>

primrec dedup_by_name :: "string list \<Rightarrow> Permission list \<Rightarrow> Permission list" where
  "dedup_by_name seen [] = []"
| "dedup_by_name seen (p # ps) =
     (if full_name p \<in> set seen then dedup_by_name seen ps
      else p # dedup_by_name (full_name p # seen) ps)"

text \<open>
  Modelled from the spec: \<^verbatim>\<open>aggregate(roleSet, context) -> set<Permission>\<close>, which is not
  among the model files: the union, over the roles of \<open>roleSet\<close>, of the permissions of
  the live grants whose conditions match. The snapshot is passed through, so that what
  aggregation leaves in the tables can be stated.
\<close>

definition aggregate ::
  "(json \<Rightarrow> 'ctx \<Rightarrow> bool) \<Rightarrow> uuid list \<Rightarrow> 'ctx \<Rightarrow> int \<Rightarrow> snapshot \<Rightarrow> Permission list \<times> snapshot" where
  "aggregate matches roleSet ctx now db =
     (let grants = filter (\<lambda>g. rp_role_id g \<in> set roleSet \<and> grant_live now g \<and>
                               grant_applies matches ctx g) (role_permissions db)
      in (dedup_by_name [] (concat (map (granted_permissions (permissions db)) grants)), db))"

section \<open>app/models/policy.py: AccessRequest\<close>

text \<open>The enumeration \<^verbatim>\<open>AccessRequestStatus\<close>; it has no value for "implemented".\<close>

datatype AccessRequestStatus =
  Request_PENDING | Request_APPROVED | Request_REJECTED | Request_EXPIRED | Request_REVOKED

text \<open>
  The workflow columns of \<^verbatim>\<open>AccessRequest\<close>. \<^verbatim>\<open>status\<close> defaults to PENDING,
  \<^verbatim>\<open>approval_workflow\<close> (a JSON list of steps, each naming its approver) to the empty
  list, \<^verbatim>\<open>implemented\<close> to \<^verbatim>\<open>False\<close>; the other columns are nullable.
\<close>

record AccessRequest =
  request_id :: uuid
  requester_id :: uuid
  request_status :: AccessRequestStatus
  current_approver_id :: "uuid option"
  approval_workflow :: "uuid list"
  approved_at :: "datetime option"
  rejected_at :: "datetime option"
  approved_by :: "uuid option"
  rejected_by :: "uuid option"
  decision_reason :: "string option"
  implemented :: bool
  implemented_at :: "datetime option"
  implemented_by :: "uuid option"

definition new_AccessRequest ::
  "uuid \<Rightarrow> uuid \<Rightarrow> AccessRequestStatus option \<Rightarrow> uuid option \<Rightarrow> uuid list option \<Rightarrow>
   bool option \<Rightarrow> AccessRequest" where
  "new_AccessRequest i requester st approver steps impl =
     \<lparr>request_id = i, requester_id = requester,
      request_status = column_default Request_PENDING st,
      current_approver_id = approver,
      approval_workflow = column_default [] steps,
      approved_at = None, rejected_at = None, approved_by = None, rejected_by = None,
      decision_reason = None,
      implemented = column_default False impl,
      implemented_at = None, implemented_by = None\<rparr>"

section \<open>Access request workflow\<close>

text \<open>
  Modelled from the spec: the workflow's states, "\<^verbatim>\<open>Pending -> Approved -> Implemented\<close>
  (terminal), \<^verbatim>\<open>Pending -> Rejected\<close> (terminal), \<^verbatim>\<open>Pending -> Expired\<close> (terminal),
  \<^verbatim>\<open>Approved -> Revoked\<close> (terminal)". The workflow operations are not among the model
  files. The state is read off the stored row: Implemented is an approved request whose
  \<^verbatim>\<open>implemented\<close> flag is set.
\<close>

datatype workflow_state = Pending | Approved | Implemented | Rejected | Expired | Revoked

definition workflow_state :: "AccessRequest \<Rightarrow> workflow_state" where
  "workflow_state r =
     (case request_status r of
        Request_PENDING \<Rightarrow> Pending
      | Request_APPROVED \<Rightarrow> if implemented r then Implemented else Approved
      | Request_REJECTED \<Rightarrow> Rejected
      | Request_EXPIRED \<Rightarrow> Expired
      | Request_REVOKED \<Rightarrow> Revoked)"

text \<open>
  Modelled from the spec: the data model's invariant "\<^verbatim>\<open>implemented=true\<close> is reachable
  only from \<^verbatim>\<open>approved\<close>", which the workflow operations (not among the model files)
  maintain.
\<close>

definition request_wellformed :: "AccessRequest \<Rightarrow> bool" where
  "request_wellformed r = (implemented r \<longrightarrow> request_status r = Request_APPROVED)"

text \<open>
  Modelled from the spec: the states the workflow section marks "(terminal)"; the workflow
  is not among the model files.
\<close>

definition terminal_states :: "workflow_state list" where
  "terminal_states = [Rejected, Implemented, Expired, Revoked]"

text \<open>
  Modelled from the spec: the transitions the workflow section lists, "no other transitions
  are valid"; the workflow is not among the model files.
\<close>

definition valid_transitions :: "(workflow_state \<times> workflow_state) list" where
  "valid_transitions =
     [(Pending, Approved), (Pending, Rejected), (Pending, Expired),
      (Approved, Revoked), (Approved, Implemented)]"

text \<open>
  Modelled from the spec: the error of an invalid transition; the workflow that raises it
  is not among the model files.
\<close>

datatype workflow_error = WorkflowInvalidTransition

text \<open>
  Modelled from the spec: the operations of the workflow, which are not among the model
  files: approval and rejection by an approver, implementation by a provisioning
  collaborator, expiry by the time-triggered sweep (which decides which pending requests are
  overdue), and revocation.
\<close>

datatype workflow_op =
  Approve uuid | Reject uuid string | Implement uuid | Expire | Revoke

text \<open>
  Modelled from the spec: "\<^verbatim>\<open>current_approver_id\<close> advances to the next step only after the
  current approver records approval"; the next step is the one after the current
  approver's, and there is none after the final step.
\<close>

definition next_approver :: "uuid list \<Rightarrow> uuid \<Rightarrow> uuid option" where
  "next_approver steps a =
     (case dropWhile (\<lambda>x. x \<noteq> a) steps of
        [] \<Rightarrow> None
      | _ # rest \<Rightarrow> (case rest of [] \<Rightarrow> None | n # _ \<Rightarrow> Some n))"

text \<open>
  Modelled from the spec: "an attempt to apply an invalid transition fails with
  \<^verbatim>\<open>WorkflowInvalidTransition\<close> and leaves state unchanged". An operation returns the
  error, if any, and the request as it is stored afterwards.
\<close>

definition refuse :: "AccessRequest \<Rightarrow> workflow_error option \<times> AccessRequest" where
  "refuse r = (Some WorkflowInvalidTransition, r)"

text \<open>
  Modelled from the spec: the transition operation of the workflow, which is not among
  the model files. Approval by the current approver advances the pointer, and "reaching
  the final step's approval moves the request to \<^verbatim>\<open>Approved\<close>"; "any rejection at any step
  immediately moves the whole request to \<^verbatim>\<open>Rejected\<close>"; \<^verbatim>\<open>implement\<close> "moves
  \<^verbatim>\<open>Approved -> Implemented\<close>"; the sweep moves a pending request to \<^verbatim>\<open>Expired\<close>;
  revocation moves an approved one to \<^verbatim>\<open>Revoked\<close>. The spec names no error for an
  approval by someone other than the current approver; it is refused like any other
  invalid attempt.
\<close>

fun apply_transition ::
  "datetime \<Rightarrow> workflow_op \<Rightarrow> AccessRequest \<Rightarrow> workflow_error option \<times> AccessRequest" where
  "apply_transition now (Approve a) r =
     (if workflow_state r = Pending \<and> current_approver_id r = Some a
      then (case next_approver (approval_workflow r) a of
              Some n \<Rightarrow> (None, r\<lparr>current_approver_id := Some n\<rparr>)
            | None \<Rightarrow> (None, r\<lparr>request_status := Request_APPROVED, current_approver_id := None,
                                 approved_at := Some now, approved_by := Some a\<rparr>))
      else refuse r)"
| "apply_transition now (Reject a reason) r =
     (if workflow_state r = Pending
      then (None, r\<lparr>request_status := Request_REJECTED, current_approver_id := None,
                     rejected_at := Some now, rejected_by := Some a,
                     decision_reason := Some reason\<rparr>)
      else refuse r)"
| "apply_transition now (Implement a) r =
     (if workflow_state r = Approved
      then (None, r\<lparr>implemented := True, implemented_at := Some now,
                     implemented_by := Some a\<rparr>)
      else refuse r)"
| "apply_transition now Expire r =
     (if workflow_state r = Pending
      then (None, r\<lparr>request_status := Request_EXPIRED, current_approver_id := None\<rparr>)
      else refuse r)"
| "apply_transition now Revoke r =
     (if workflow_state r = Approved
      then (None, r\<lparr>request_status := Request_REVOKED\<rparr>)
      else refuse r)"

chapter \<open>Verified properties\<close>

section \<open>Session properties\<close>

text \<open>
  What the two properties answer at the instant \<open>t\<close> for a session whose expiry is naive:
  the expiry is compared with \<open>t\<close> itself, strictly for \<^verbatim>\<open>is_active\<close>.
\<close>

lemma UserSession_is_active_naive_expiry:
  "session_expires_at s = Naive e \<Longrightarrow>
     UserSession_is_active s t =
       Inr (session_status s = Session_ACTIVE \<and> t < e \<and> terminated_at s = None)"
  by (simp add: UserSession_is_active_def utcnow_def)

lemma UserSession_is_expired_naive_expiry:
  "session_expires_at s = Naive e \<Longrightarrow>
     UserSession_is_expired s t = Inr (e \<le> t \<or> session_status s = Session_EXPIRED)"
  by (simp add: UserSession_is_expired_def utcnow_def)

text \<open>
  C8. At one instant \<open>t\<close>, a session for which \<^verbatim>\<open>is_active\<close> returns \<^verbatim>\<open>True\<close> has status
  ACTIVE, an expiry that compares strictly later than now and no termination time, and
  \<^verbatim>\<open>is_expired\<close> returns \<^verbatim>\<open>False\<close> for it: the two properties are never both true.
\<close>

theorem is_active_excludes_is_expired:
  "UserSession_is_active s t = Inr True \<Longrightarrow>
     session_status s = Session_ACTIVE \<and>
     dt_gt (session_expires_at s) (utcnow t) = Inr True \<and>
     terminated_at s = None \<and>
     UserSession_is_expired s t = Inr False"
  by (cases "session_expires_at s")
     (auto simp: UserSession_is_active_def UserSession_is_expired_def utcnow_def
           split: if_splits sum.splits)

theorem is_active_excludes_is_expired_witness:
  "UserSession_is_active
     \<lparr>session_id = 1, session_user_id = 2, session_status = Session_ACTIVE,
      session_expires_at = Naive 500, terminated_at = None, is_suspicious = False,
      session_risk_score = 0, mfa_verified = False\<rparr> 100 = Inr True \<and>
   UserSession_is_expired
     \<lparr>session_id = 1, session_user_id = 2, session_status = Session_ACTIVE,
      session_expires_at = Naive 500, terminated_at = None, is_suspicious = False,
      session_risk_score = 0, mfa_verified = False\<rparr> 100 = Inr False"
proof -
  let ?s = "\<lparr>session_id = 1, session_user_id = 2, session_status = Session_ACTIVE,
      session_expires_at = Naive 500, terminated_at = None, is_suspicious = False,
      session_risk_score = 0, mfa_verified = False\<rparr>"
  have h: "UserSession_is_active ?s 100 = Inr True"
    by (simp add: UserSession_is_active_def utcnow_def)
  from is_active_excludes_is_expired [OF h] h show ?thesis by simp
qed

section \<open>MFA token validity\<close>

text \<open>
  What \<^verbatim>\<open>is_valid\<close> answers at the instant \<open>t\<close>, by the kind of the stored expiry. For a
  naive expiry the answer is the conjunction of the three tests, the expiry being strictly
  later than \<open>t\<close>; for an aware expiry a PENDING token meets the comparison with the naive
  \<^verbatim>\<open>utcnow()\<close> and raises.
\<close>

lemma is_valid_naive_expiry:
  "token_expires_at tok = Naive e \<Longrightarrow>
     is_valid tok t =
       Inr (token_status tok = Token_PENDING \<and> t < e \<and> attempts tok < max_attempts tok)"
  by (simp add: is_valid_def utcnow_def)

lemma is_valid_aware_expiry:
  "token_expires_at tok = Aware e \<Longrightarrow>
     is_valid tok t = (if token_status tok = Token_PENDING then Inl TypeError else Inr False)"
  by (simp add: is_valid_def utcnow_def)

text \<open>
  C9. The claim holds of tokens whose expiry is naive and fails on the code for a token as
  the table returns it: with status PENDING, an aware \<^verbatim>\<open>expires_at\<close> whose instant 900 is
  strictly after the instant 100 of the call, and no attempts used out of three,
  \<^verbatim>\<open>is_valid\<close> does not return \<^verbatim>\<open>True\<close> but raises \<^verbatim>\<open>TypeError\<close>; the same token with the
  naive expiry 900 is valid at 100 and no longer valid at 900.
\<close>

theorem is_valid_aware_expiry_raises:
  "token_status \<lparr>token_id = 7, token_status = Token_PENDING, token_expires_at = Aware 900,
                 attempts = 0, max_attempts = 3\<rparr> = Token_PENDING \<and>
   100 < instant (token_expires_at \<lparr>token_id = 7, token_status = Token_PENDING,
                 token_expires_at = Aware 900, attempts = 0, max_attempts = 3\<rparr>) \<and>
   attempts \<lparr>token_id = 7, token_status = Token_PENDING, token_expires_at = Aware 900,
             attempts = 0, max_attempts = 3\<rparr>
     < max_attempts \<lparr>token_id = 7, token_status = Token_PENDING, token_expires_at = Aware 900,
                     attempts = 0, max_attempts = 3\<rparr> \<and>
   is_valid \<lparr>token_id = 7, token_status = Token_PENDING, token_expires_at = Aware 900,
             attempts = 0, max_attempts = 3\<rparr> 100 = Inl TypeError \<and>
   is_valid \<lparr>token_id = 7, token_status = Token_PENDING, token_expires_at = Naive 900,
             attempts = 0, max_attempts = 3\<rparr> 100 = Inr True \<and>
   is_valid \<lparr>token_id = 7, token_status = Token_PENDING, token_expires_at = Naive 900,
             attempts = 0, max_attempts = 3\<rparr> 900 = Inr False"
  by (simp add: is_valid_def utcnow_def instant_def)

section \<open>Canonical permission names\<close>

text \<open>
  C1 as stated fails for a scope that is present but empty: \<^verbatim>\<open>if self.scope:\<close> is false
  for the empty string, so nothing is appended, while the stated name would end in a colon.
\<close>

theorem full_name_empty_scope_counterexample:
  "scope \<lparr>perm_id = 1, perm_name = ''report.read'', resource = ''report'', action = ''read'',
          scope = Some '''', perm_is_active = True\<rparr> \<noteq> None \<and>
   full_name \<lparr>perm_id = 1, perm_name = ''report.read'', resource = ''report'',
              action = ''read'', scope = Some '''', perm_is_active = True\<rparr>
     = ''report:read'' \<and>
   full_name \<lparr>perm_id = 1, perm_name = ''report.read'', resource = ''report'',
              action = ''read'', scope = Some '''', perm_is_active = True\<rparr>
     \<noteq> ''report'' @ '':'' @ ''read'' @ '':'' @ ''''"
  by (simp add: full_name_def full_name_parts_def)

text \<open>
  C1 (amended). The canonical name is the resource, a colon and the action, with a further
  colon and the scope appended exactly when the scope is present and not the empty string;
  the name is joined from three parts in that case and from exactly two parts (resource and
  action) otherwise.
\<close>

theorem full_name_format:
  "full_name p =
     resource p @ '':'' @ action p @
       (case scope p of None \<Rightarrow> '''' | Some s \<Rightarrow> if s = '''' then '''' else '':'' @ s)
   \<and> full_name_parts p =
       (case scope p of
          None \<Rightarrow> [resource p, action p]
        | Some s \<Rightarrow> if s = '''' then [resource p, action p] else [resource p, action p, s])"
  by (cases "scope p") (simp_all add: full_name_def full_name_parts_def)

theorem full_name_format_witness:
  "full_name \<lparr>perm_id = 1, perm_name = ''report.read.own'', resource = ''report'',
              action = ''read'', scope = Some ''own'', perm_is_active = True\<rparr>
     = ''report:read:own'' \<and>
   full_name \<lparr>perm_id = 2, perm_name = ''report.read'', resource = ''report'',
              action = ''read'', scope = None, perm_is_active = True\<rparr>
     = ''report:read''"
  using full_name_format [of "\<lparr>perm_id = 1, perm_name = ''report.read.own'',
              resource = ''report'', action = ''read'', scope = Some ''own'',
              perm_is_active = True\<rparr>"]
        full_name_format [of "\<lparr>perm_id = 2, perm_name = ''report.read'',
              resource = ''report'', action = ''read'', scope = None,
              perm_is_active = True\<rparr>"]
  by simp

section \<open>Default risk of a new session\<close>

text \<open>
  C2 as stated fails: a session created with no risk information carries the column default
  0, the lowest score of the scale, and that score does not force a step-up at a threshold
  of 70.
\<close>

theorem new_session_not_high_risk_counterexample:
  "new_UserSession 1 2 (Naive 500) None None None None None =
     Inr \<lparr>session_id = 1, session_user_id = 2, session_status = Session_ACTIVE,
          session_expires_at = Naive 500, terminated_at = None, is_suspicious = False,
          session_risk_score = 0, mfa_verified = False\<rparr> \<and>
   \<not> forces_step_up 70
       \<lparr>session_id = 1, session_user_id = 2, session_status = Session_ACTIVE,
        session_expires_at = Naive 500, terminated_at = None, is_suspicious = False,
        session_risk_score = 0, mfa_verified = False\<rparr>"
  by (simp add: new_UserSession_def column_default_def forces_step_up_def fits_Integer_def)

text \<open>
  C2 (amended). A session or session-activity row created with no risk score given is
  created and carries the default score 0, the lowest of the 0-100 scale; a row created
  with no value for \<^verbatim>\<open>mfa_verified\<close>, \<^verbatim>\<open>is_suspicious\<close> or \<^verbatim>\<open>anomaly_detected\<close> carries
  \<^verbatim>\<open>False\<close> there; on its score alone such a session forces a step-up at no positive
  threshold.
\<close>

theorem new_session_default_risk:
  "(\<exists>s. new_UserSession i u exp st tm susp None mfa = Inr s \<and> session_risk_score s = 0 \<and>
        (0 < threshold \<longrightarrow> \<not> forces_step_up threshold s)) \<and>
   (\<forall>s. new_UserSession i u exp st tm susp risk None = Inr s \<longrightarrow> mfa_verified s = False) \<and>
   (\<forall>s. new_UserSession i u exp st tm None risk mfa = Inr s \<longrightarrow> is_suspicious s = False) \<and>
   (\<exists>a. new_SessionActivity j s' ty None an = Inr a \<and> activity_risk_score a = 0) \<and>
   (\<forall>a. new_SessionActivity j s' ty risk None = Inr a \<longrightarrow> anomaly_detected a = False)"
  by (auto simp: new_UserSession_def new_SessionActivity_def column_default_def
      forces_step_up_def fits_Integer_def split: if_splits)

theorem new_session_default_risk_witness:
  "(0::int) < 1 \<and>
   (\<exists>s. new_UserSession 1 2 (Naive 500) None None None None None = Inr s \<and>
        session_risk_score s = 0 \<and> \<not> forces_step_up 1 s)"
  using new_session_default_risk [where i = 1 and u = 2 and exp = "Naive 500" and st = None
      and tm = None and susp = None and mfa = None and threshold = 1]
  by simp

section \<open>Range of the risk and trust scores\<close>

text \<open>
  A row created without a score carries the default 0, inside the documented range; a
  score given at creation is either refused for its width or stored exactly as given.
\<close>

lemma default_scores_in_range:
  "(\<exists>s. new_UserSession i u exp st tm susp None mfa = Inr s \<and>
        in_score_range (session_risk_score s)) \<and>
   (\<exists>d. new_DeviceInfo j u' fp tr None None bl = Inr d \<and> in_score_range (trust_score d))"
  by (simp add: new_UserSession_def new_DeviceInfo_def column_default_def in_score_range_def
      fits_Integer_def)

lemma given_score_stored_or_refused:
  "new_UserSession i u exp st tm susp (Some v) mfa = Inr s \<Longrightarrow>
     session_risk_score s = v \<and> fits_Integer v"
  "new_DeviceInfo j u' fp tr (Some w) lc bl = Inr d \<Longrightarrow> trust_score d = w \<and> fits_Integer w"
  by (auto simp: new_UserSession_def new_DeviceInfo_def column_default_def split: if_splits)

text \<open>
  C3. The claim, and the comment \<^verbatim>\<open># 0-100\<close> on both columns, give the range 0 to 100; the
  code does not keep it. A session created with risk score 150 and a device created with
  trust score -5 are accepted and hold exactly those values, outside the range: nothing
  clamps or refuses them.
\<close>

theorem score_outside_documented_range:
  "new_UserSession 1 2 (Naive 500) None None None (Some 150) None =
     Inr \<lparr>session_id = 1, session_user_id = 2, session_status = Session_ACTIVE,
          session_expires_at = Naive 500, terminated_at = None, is_suspicious = False,
          session_risk_score = 150, mfa_verified = False\<rparr> \<and>
   \<not> in_score_range 150 \<and>
   new_DeviceInfo 3 2 ''fp'' None (Some (- 5)) None None =
     Inr \<lparr>device_id = 3, device_user_id = 2, device_fingerprint = ''fp'', is_trusted = False,
          trust_score = - 5, login_count = 0, is_blocked = False\<rparr> \<and>
   \<not> in_score_range (- 5)"
  by (simp add: new_UserSession_def new_DeviceInfo_def column_default_def in_score_range_def
      fits_Integer_def)

section \<open>Permission scopes\<close>

text \<open>
  C7 as stated fails: the scope column is a nullable string of up to 100 characters with no
  further constraint. A permission created with the scope \<^verbatim>\<open>team\<close> satisfies the declared
  column types and keeps that scope, which is none of the four listed words.
\<close>

theorem scope_not_restricted_counterexample:
  "scope (new_Permission 1 ''report.read.team'' ''report'' ''read'' (Some ''team'') None)
     = Some ''team'' \<and>
   Permission_columns_ok
     (new_Permission 1 ''report.read.team'' ''report'' ''read'' (Some ''team'') None) \<and>
   ''team'' \<notin> set example_scopes \<and>
   full_name (new_Permission 1 ''report.read.team'' ''report'' ''read'' (Some ''team'') None)
     = ''report:read:team''"
  by (simp add: new_Permission_def Permission_columns_ok_def example_scopes_def
      full_name_def full_name_parts_def column_default_def)

text \<open>
  C7 (amended). The scope of a permission is absent or an arbitrary string: creation stores
  the scope exactly as given, and the declared column types admit the row precisely when the
  name, resource and action fit their columns and the scope, if present, has at most 100
  characters. The words own, department, organization and all are admitted examples.
\<close>

theorem scope_stored_as_given:
  "scope (new_Permission i n r a sc active) = sc \<and>
   Permission_columns_ok (new_Permission i n r a sc active) =
     (length n \<le> 100 \<and> length r \<le> 100 \<and> length a \<le> 50 \<and>
      (case sc of None \<Rightarrow> True | Some s \<Rightarrow> length s \<le> 100)) \<and>
   list_all (\<lambda>s. Permission_columns_ok (new_Permission 1 ''p'' ''report'' ''read'' (Some s) None))
     example_scopes"
  by (simp add: new_Permission_def Permission_columns_ok_def example_scopes_def)

section \<open>Uniqueness of grants\<close>

lemma keys_unique_filter: "keys_unique rows \<Longrightarrow> keys_unique (filter P rows)"
  by (simp add: keys_unique_def distinct_map_filter)

lemma keys_unique_insert:
  assumes "keys_unique rows" "insert_role_permission rows r = Inr rows'"
  shows "keys_unique rows'"
proof -
  from assms(2) have pk: "\<forall>x \<in> set rows. rp_id x \<noteq> rp_id r"
    and uq: "\<forall>x \<in> set rows. grant_key x \<noteq> grant_key r"
    and rows': "rows' = rows @ [r]"
    by (auto simp: insert_role_permission_def violates_pk_def
        violates_uq_role_permission_def grant_key_def split: if_splits)
  from pk have "rp_id r \<notin> rp_id ` set rows" by force
  moreover from uq have "grant_key r \<notin> grant_key ` set rows" by force
  ultimately show ?thesis using assms(1) by (simp add: keys_unique_def rows')
qed

lemma replace_keeps_unique:
  "distinct (map rp_id rows) \<Longrightarrow> distinct (map grant_key rows) \<Longrightarrow> rp_id r' = i \<Longrightarrow>
   \<forall>x \<in> set rows. rp_id x \<noteq> i \<longrightarrow> grant_key x \<noteq> grant_key r' \<Longrightarrow>
   distinct (map rp_id (map (\<lambda>x. if rp_id x = i then r' else x) rows)) \<and>
   distinct (map grant_key (map (\<lambda>x. if rp_id x = i then r' else x) rows))"
proof (induction rows)
  case Nil
  then show ?case by simp
next
  case (Cons a rows)
  show ?case
  proof (cases "rp_id a = i")
    case True
    from Cons.prems(1) have "rp_id a \<notin> rp_id ` set rows" by simp
    with True have no_i: "\<forall>x \<in> set rows. rp_id x \<noteq> i" by (metis imageI)
    then have same: "map (\<lambda>x. if rp_id x = i then r' else x) rows = rows"
      by (simp add: map_idI)
    from Cons.prems no_i have "grant_key r' \<notin> grant_key ` set rows" by force
    moreover from Cons.prems no_i have "rp_id r' \<notin> rp_id ` set rows" by force
    ultimately show ?thesis using True Cons.prems(1,2) same by simp
  next
    case False
    with Cons show ?thesis by (auto simp: image_iff)
  qed
qed

lemma keys_unique_update:
  assumes "keys_unique rows" "update_role_permission rows i r = Inr rows'"
  shows "keys_unique rows'"
proof -
  let ?r = "r\<lparr>rp_id := i\<rparr>"
  show ?thesis
  proof (cases "filter (\<lambda>x. rp_id x \<noteq> i) rows = rows")
    case True
    with assms show ?thesis by (simp add: update_role_permission_def)
  next
    case False
    with assms(2) have ok: "\<not> violates_uq_role_permission (filter (\<lambda>x. rp_id x \<noteq> i) rows) ?r"
      and rows': "rows' = map (\<lambda>x. if rp_id x = i then ?r else x) rows"
      by (auto simp: update_role_permission_def Let_def split: if_splits)
    from ok have "\<forall>x \<in> set rows. rp_id x \<noteq> i \<longrightarrow> grant_key x \<noteq> grant_key ?r"
      by (auto simp: violates_uq_role_permission_def grant_key_def)
    with assms(1) replace_keeps_unique [of rows ?r i] show ?thesis
      unfolding rows' keys_unique_def by simp
  qed
qed

lemma reachable_keys_unique: "reachable_role_permissions rows \<Longrightarrow> keys_unique rows"
proof (induction rule: reachable_role_permissions.induct)
  case reach_empty
  then show ?case by (simp add: keys_unique_def)
next
  case (reach_insert rows r rows')
  then show ?case by (blast intro: keys_unique_insert)
next
  case (reach_update rows i r rows')
  then show ?case by (blast intro: keys_unique_update)
next
  case (reach_delete rows i)
  then show ?case by (simp add: delete_role_permission_def keys_unique_filter)
next
  case (reach_delete_role rows role)
  then show ?case by (simp add: delete_role_cascade_def keys_unique_filter)
next
  case (reach_delete_permission rows perm)
  then show ?case by (simp add: delete_permission_cascade_def keys_unique_filter)
qed

lemma distinct_map_filter_le_one:
  "distinct (map f xs) \<Longrightarrow> length (filter (\<lambda>x. f x = k) xs) \<le> 1"
  by (induction xs) (auto simp: filter_empty_conv image_iff)

text \<open>
  C10. In every state of the table \<^verbatim>\<open>role_permissions\<close> reached by inserts, updates and
  deletes under the declared constraints, at most one row carries a given
  (\<^verbatim>\<open>role_id\<close>, \<^verbatim>\<open>permission_id\<close>) pair: a role never holds two grant rows for the same
  permission.
\<close>

theorem role_permission_pair_unique:
  "reachable_role_permissions rows \<Longrightarrow>
     length (filter (\<lambda>x. rp_role_id x = role \<and> rp_permission_id x = perm) rows) \<le> 1"
proof -
  assume "reachable_role_permissions rows"
  then have "distinct (map grant_key rows)"
    using reachable_keys_unique by (simp add: keys_unique_def)
  from distinct_map_filter_le_one [OF this, of "(role, perm)"]
  show ?thesis by (simp add: grant_key_def)
qed

theorem role_permission_pair_unique_witness:
  "reachable_role_permissions [new_RolePermission 1 10 20 None None None] \<and>
   length (filter (\<lambda>x. rp_role_id x = 10 \<and> rp_permission_id x = 20)
     [new_RolePermission 1 10 20 None None None]) \<le> 1 \<and>
   insert_role_permission [new_RolePermission 1 10 20 None None None]
     (new_RolePermission 2 10 20 None None None) = Inl IntegrityError"
proof -
  have h: "reachable_role_permissions [new_RolePermission 1 10 20 None None None]"
    by (rule reach_insert [OF reach_empty])
       (simp add: insert_role_permission_def violates_pk_def violates_uq_role_permission_def)
  have "insert_role_permission [new_RolePermission 1 10 20 None None None]
     (new_RolePermission 2 10 20 None None None) = Inl IntegrityError"
    by (simp add: insert_role_permission_def violates_pk_def violates_uq_role_permission_def
        new_RolePermission_def)
  with h role_permission_pair_unique [OF h, of 10 20] show ?thesis by simp
qed

section \<open>Cycle safety of the resolver\<close>










section \<open>Lazy expiry of grants\<close>

lemma filter_removeAll_rejected: "\<not> P g \<Longrightarrow> filter P (removeAll g xs) = filter P xs"
  by (induction xs) auto

text \<open>
  C5. For every role set and evaluation time, a grant row whose \<^verbatim>\<open>expires_at\<close> is strictly
  in the past contributes nothing to the output of \<^verbatim>\<open>aggregate\<close>, whatever its active
  flag: the output is the same as without the row. Aggregation leaves the tables as they
  are, so the expired row is still stored afterwards.
\<close>

theorem aggregate_skips_expired:
  assumes "g \<in> set (role_permissions db)"
    and "rp_expires_at g = Some e" and "instant e < now"
  shows "fst (aggregate matches roleSet ctx now db) =
           fst (aggregate matches roleSet ctx now
                  (db\<lparr>role_permissions := removeAll g (role_permissions db)\<rparr>)) \<and>
         snd (aggregate matches roleSet ctx now db) = db \<and>
         g \<in> set (role_permissions (snd (aggregate matches roleSet ctx now db)))"
proof -
  from assms(2,3) have "\<not> grant_live now g"
    by (simp add: grant_live_def not_expired_def)
  then have "\<not> (rp_role_id g \<in> set roleSet \<and> grant_live now g \<and> grant_applies matches ctx g)"
    by simp
  from filter_removeAll_rejected [of "\<lambda>g. rp_role_id g \<in> set roleSet \<and> grant_live now g \<and>
      grant_applies matches ctx g", OF this] assms(1)
  show ?thesis by (simp add: aggregate_def)
qed

theorem aggregate_skips_expired_witness:
  "fst (aggregate (\<lambda>c x. True) [10] () 100
     \<lparr>permissions = [new_Permission 20 ''report.read'' ''report'' ''read'' (Some ''own'') None,
                     new_Permission 21 ''report.write'' ''report'' ''write'' None None],
      role_permissions = [new_RolePermission 1 10 20 (Some (Naive 50)) (Some True) None,
                          new_RolePermission 2 10 21 (Some (Naive 500)) None None],
      user_roles = [], role_hierarchy = []\<rparr>)
   = [new_Permission 21 ''report.write'' ''report'' ''write'' None None] \<and>
   new_RolePermission 1 10 20 (Some (Naive 50)) (Some True) None \<in> set (role_permissions
     (snd (aggregate (\<lambda>c x. True) [10] () 100
     \<lparr>permissions = [new_Permission 20 ''report.read'' ''report'' ''read'' (Some ''own'') None,
                     new_Permission 21 ''report.write'' ''report'' ''write'' None None],
      role_permissions = [new_RolePermission 1 10 20 (Some (Naive 50)) (Some True) None,
                          new_RolePermission 2 10 21 (Some (Naive 500)) None None],
      user_roles = [], role_hierarchy = []\<rparr>)))"
proof -
  let ?g = "new_RolePermission 1 10 20 (Some (Naive 50)) (Some True) None"
  let ?db = "\<lparr>permissions = [new_Permission 20 ''report.read'' ''report'' ''read'' (Some ''own'') None,
                     new_Permission 21 ''report.write'' ''report'' ''write'' None None],
      role_permissions = [?g, new_RolePermission 2 10 21 (Some (Naive 500)) None None],
      user_roles = [], role_hierarchy = []\<rparr>"
  have a: "?g \<in> set (role_permissions ?db)" by simp
  have b: "rp_expires_at ?g = Some (Naive 50)" by (simp add: new_RolePermission_def)
  have c: "instant (Naive 50) < 100" by (simp add: instant_def)
  have d: "fst (aggregate (\<lambda>c x. True) [10] () 100
       (?db\<lparr>role_permissions := removeAll ?g (role_permissions ?db)\<rparr>))
     = [new_Permission 21 ''report.write'' ''report'' ''write'' None None]"
    by (simp add: aggregate_def new_RolePermission_def new_Permission_def column_default_def
        grant_live_def grant_applies_def not_expired_def instant_def granted_permissions_def
        full_name_def full_name_parts_def)
  from aggregate_skips_expired [OF a b c, of "\<lambda>c x. True" "[10]" "()"] d
  show ?thesis by simp
qed

section \<open>Workflow transitions\<close>

lemma terminal_refused:
  "workflow_state r \<in> set terminal_states \<Longrightarrow>
     apply_transition now op r = (Some WorkflowInvalidTransition, r)"
  by (cases op) (auto simp: terminal_states_def refuse_def)

lemma failure_unchanged:
  "apply_transition now op r = (Some e, r') \<Longrightarrow> e = WorkflowInvalidTransition \<and> r' = r"
  by (cases op) (auto simp: refuse_def split: if_splits option.splits)

lemma success_valid:
  "apply_transition now op r = (None, r') \<Longrightarrow> request_wellformed r \<Longrightarrow>
     workflow_state r' \<noteq> workflow_state r \<Longrightarrow>
     (workflow_state r, workflow_state r') \<in> set valid_transitions"
  by (cases op)
     (auto simp: refuse_def workflow_state_def valid_transitions_def request_wellformed_def
           split: if_splits option.splits AccessRequestStatus.splits)

lemma success_wellformed:
  "apply_transition now op r = (None, r') \<Longrightarrow> request_wellformed r \<Longrightarrow>
     request_wellformed r'"
  by (cases op)
     (auto simp: refuse_def workflow_state_def request_wellformed_def
           split: if_splits option.splits AccessRequestStatus.splits)

lemma valid_realised:
  "(a, b) \<in> set valid_transitions \<Longrightarrow>
     \<exists>op r r'. apply_transition now op r = (None, r') \<and> workflow_state r = a \<and>
       workflow_state r' = b"
proof -
  let ?p = "new_AccessRequest 1 2 None (Some 3) (Some [3]) None"
  let ?a = "new_AccessRequest 1 2 (Some Request_APPROVED) None (Some [3]) None"
  assume "(a, b) \<in> set valid_transitions"
  then consider "a = Pending" "b = Approved" | "a = Pending" "b = Rejected"
    | "a = Pending" "b = Expired" | "a = Approved" "b = Revoked"
    | "a = Approved" "b = Implemented"
    by (auto simp: valid_transitions_def)
  then show ?thesis
  proof cases
    case 1
    have "fst (apply_transition now (Approve 3) ?p) = None \<and> workflow_state ?p = Pending \<and>
      workflow_state (snd (apply_transition now (Approve 3) ?p)) = Approved"
      by (simp add: new_AccessRequest_def workflow_state_def column_default_def
          next_approver_def)
    with 1 show ?thesis by (metis prod.collapse)
  next
    case 2
    have "fst (apply_transition now (Reject 3 ''no'') ?p) = None \<and> workflow_state ?p = Pending \<and>
      workflow_state (snd (apply_transition now (Reject 3 ''no'') ?p)) = Rejected"
      by (simp add: new_AccessRequest_def workflow_state_def column_default_def)
    with 2 show ?thesis by (metis prod.collapse)
  next
    case 3
    have "fst (apply_transition now Expire ?p) = None \<and> workflow_state ?p = Pending \<and>
      workflow_state (snd (apply_transition now Expire ?p)) = Expired"
      by (simp add: new_AccessRequest_def workflow_state_def column_default_def)
    with 3 show ?thesis by (metis prod.collapse)
  next
    case 4
    have "fst (apply_transition now Revoke ?a) = None \<and> workflow_state ?a = Approved \<and>
      workflow_state (snd (apply_transition now Revoke ?a)) = Revoked"
      by (simp add: new_AccessRequest_def workflow_state_def column_default_def)
    with 4 show ?thesis by (metis prod.collapse)
  next
    case 5
    have "fst (apply_transition now (Implement 9) ?a) = None \<and> workflow_state ?a = Approved \<and>
      workflow_state (snd (apply_transition now (Implement 9) ?a)) = Implemented"
      by (simp add: new_AccessRequest_def workflow_state_def column_default_def)
    with 5 show ?thesis by (metis prod.collapse)
  qed
qed

text \<open>
  C4. For every access request in a terminal state (Rejected, Implemented, Expired or
  Revoked), every workflow operation fails with \<^verbatim>\<open>WorkflowInvalidTransition\<close> and leaves
  the request, with all its fields, unchanged; every failing operation leaves the request
  unchanged. A successful operation on a request that satisfies the data model's invariant
  keeps the invariant and either leaves the state as it is (an approval before the final
  step) or makes one of the five transitions Pending to Approved, Pending to Rejected,
  Pending to Expired, Approved to Revoked, Approved to Implemented; each of the five is
  made by some operation.
\<close>

theorem workflow_terminal_and_valid_transitions:
  "(workflow_state r \<in> set terminal_states \<longrightarrow>
      apply_transition now op r = (Some WorkflowInvalidTransition, r)) \<and>
   (\<forall>e r'. apply_transition now op r = (Some e, r') \<longrightarrow>
      e = WorkflowInvalidTransition \<and> r' = r) \<and>
   (\<forall>r'. request_wellformed r \<and> apply_transition now op r = (None, r') \<longrightarrow>
      request_wellformed r' \<and>
      (workflow_state r' \<noteq> workflow_state r \<longrightarrow>
         (workflow_state r, workflow_state r') \<in> set valid_transitions)) \<and>
   (\<forall>(a, b) \<in> set valid_transitions.
      \<exists>op' r0 r'. apply_transition now op' r0 = (None, r') \<and> workflow_state r0 = a \<and>
        workflow_state r' = b)"
  using terminal_refused [of r now op] failure_unchanged [of now op r]
    success_valid [of now op r] success_wellformed [of now op r] valid_realised [of _ _ now]
  by blast

theorem workflow_terminal_and_valid_transitions_witness:
  "workflow_state (new_AccessRequest 1 2 (Some Request_REJECTED) None (Some [3]) None)
     \<in> set terminal_states \<and>
   apply_transition (Naive 100) (Approve 3)
     (new_AccessRequest 1 2 (Some Request_REJECTED) None (Some [3]) None)
   = (Some WorkflowInvalidTransition,
      new_AccessRequest 1 2 (Some Request_REJECTED) None (Some [3]) None) \<and>
   workflow_state (new_AccessRequest 1 2 (Some Request_APPROVED) None (Some [3]) (Some True))
     \<in> set terminal_states \<and>
   apply_transition (Naive 100) Revoke
     (new_AccessRequest 1 2 (Some Request_APPROVED) None (Some [3]) (Some True))
   = (Some WorkflowInvalidTransition,
      new_AccessRequest 1 2 (Some Request_APPROVED) None (Some [3]) (Some True)) \<and>
   request_wellformed (new_AccessRequest 1 2 None (Some 3) (Some [3, 4]) None) \<and>
   fst (apply_transition (Naive 100) (Reject 3 ''no'')
     (new_AccessRequest 1 2 None (Some 3) (Some [3, 4]) None)) = None \<and>
   (workflow_state (new_AccessRequest 1 2 None (Some 3) (Some [3, 4]) None),
    workflow_state (snd (apply_transition (Naive 100) (Reject 3 ''no'')
      (new_AccessRequest 1 2 None (Some 3) (Some [3, 4]) None))))
     \<in> set valid_transitions"
proof -
  let ?r = "new_AccessRequest 1 2 (Some Request_REJECTED) None (Some [3]) None"
  let ?i = "new_AccessRequest 1 2 (Some Request_APPROVED) None (Some [3]) (Some True)"
  let ?p = "new_AccessRequest 1 2 None (Some 3) (Some [3, 4]) None"
  have t: "workflow_state ?r \<in> set terminal_states" "workflow_state ?i \<in> set terminal_states"
    by (simp_all add: new_AccessRequest_def workflow_state_def terminal_states_def
        column_default_def)
  have w: "request_wellformed ?p"
    by (simp add: new_AccessRequest_def request_wellformed_def column_default_def)
  have ok: "fst (apply_transition (Naive 100) (Reject 3 ''no'') ?p) = None"
    by (simp add: new_AccessRequest_def workflow_state_def column_default_def)
  have changed: "workflow_state (snd (apply_transition (Naive 100) (Reject 3 ''no'') ?p))
      \<noteq> workflow_state ?p"
    by (simp add: new_AccessRequest_def workflow_state_def column_default_def)
  from ok have eq: "apply_transition (Naive 100) (Reject 3 ''no'') ?p
      = (None, snd (apply_transition (Naive 100) (Reject 3 ''no'') ?p))"
    by (metis prod.collapse)
  from workflow_terminal_and_valid_transitions [of ?p "Naive 100" "Reject 3 ''no''"] w eq changed
  have "(workflow_state ?p, workflow_state (snd (apply_transition (Naive 100) (Reject 3 ''no'') ?p)))
      \<in> set valid_transitions" by blast
  with t w ok workflow_terminal_and_valid_transitions [of ?r "Naive 100" "Approve 3"]
    workflow_terminal_and_valid_transitions [of ?i "Naive 100" Revoke]
  show ?thesis by blast
qed


end
